theory Spec2Isabelle
  imports
    Main
    "HOL-Library.Multiset"
    "HOL-Library.Char_ord"
    "HOL-Library.List_Lexorder"
begin

section \<open>SQL values and operators used by the view\<close>

text \<open>
  A nullable SQL column is an \<open>option\<close>: \<open>None\<close> is NULL. Integer columns are
  unbounded \<open>int\<close>s (PostgreSQL raises on overflow instead of wrapping, and no count
  reaches that range). A \<open>timestamptz\<close> is the number of seconds since the epoch in the
  session's time zone, a date is a day number, and \<open>DATE\<close> truncates the one to the
  other.
\<close>

type_synonym date = int
type_synonym timestamptz = int

definition DATE :: "timestamptz option \<Rightarrow> date option" where
  "DATE t = map_option (\<lambda>s. s div 86400) t"

text \<open>
  SQL comparison is three-valued: it is NULL as soon as one side is. A \<open>WHERE\<close> or
  \<open>ON\<close> condition keeps a row only when it is true.
\<close>

definition sql_eq :: "'a option \<Rightarrow> 'a option \<Rightarrow> bool option" where
  "sql_eq a b = (case a of None \<Rightarrow> None
                 | Some x \<Rightarrow> (case b of None \<Rightarrow> None | Some y \<Rightarrow> Some (x = y)))"

definition is_true :: "bool option \<Rightarrow> bool" where
  "is_true p = (p = Some True)"

definition COALESCE :: "'a option \<Rightarrow> 'a \<Rightarrow> 'a" where
  "COALESCE x d = (case x of None \<Rightarrow> d | Some v \<Rightarrow> v)"

text \<open>\<open>SUM\<close> skips NULL inputs and is NULL when no input is left.\<close>

definition SUM_agg :: "int option list \<Rightarrow> int option" where
  "SUM_agg xs = (case List.map_filter (\<lambda>x. x) xs of [] \<Rightarrow> None | v # vs \<Rightarrow> Some (sum_list (v # vs)))"

text \<open>
  \<open>l LEFT JOIN r ON c\<close>: every left row with each right row that satisfies the
  condition, or once with a NULL-extended right side when none does.
\<close>

definition left_join :: "('a \<Rightarrow> 'b \<Rightarrow> bool) \<Rightarrow> 'a list \<Rightarrow> 'b list \<Rightarrow> ('a \<times> 'b option) list" where
  "left_join on ls rs =
     concat (map (\<lambda>l. case filter (on l) rs of
                         [] \<Rightarrow> [(l, None)]
                       | m # ms \<Rightarrow> map (\<lambda>m'. (l, Some m')) (m # ms)) ls)"

section \<open>Tables\<close>

text \<open>
  The six supply quantities are columns of both \<open>daily_container_counts\<close> and
  \<open>store_supplies\<close>. The declarations of these two tables and of
  \<open>active_delivery_runs\<close> are not part of the sources, so every column is taken as
  nullable, which is the most general reading.
\<close>

record supply_columns =
  sleeves :: "int option"
  caps :: "int option"
  canvases :: "int option"
  totes :: "int option"
  hardlines_raw :: "int option"
  softlines_raw :: "int option"

record daily_container_count = supply_columns +
  dcc_department_number :: "string option"
  dcc_created_at :: "timestamptz option"

record store_supply = supply_columns +
  ss_department_number :: "string option"

record active_delivery_run =
  r_id :: "string option"
  r_store_name :: "string option"
  r_department_number :: "string option"
  r_run_type :: "string option"
  r_truck_type :: "string option"
  r_status :: "string option"
  r_position :: "int option"
  r_driver_id :: "string option"
  r_start_time :: "timestamptz option"
  r_preload_time :: "timestamptz option"
  r_complete_time :: "timestamptz option"
  r_depart_time :: "timestamptz option"
  r_created_at :: "timestamptz option"

text \<open>A row of the common table expression \<open>store_totals\<close>.\<close>

record store_total =
  st_department_number :: "string option"
  total_sleeves :: "int option"
  total_caps :: "int option"
  total_canvases :: "int option"
  total_totes :: "int option"
  total_hardlines :: "int option"
  total_softlines :: "int option"

text \<open>A row of the view \<open>run_supply_needs\<close>, under the view's column names.\<close>

record run_supply_need =
  run_id :: "string option"
  store_name :: "string option"
  department_number :: "string option"
  run_type :: "string option"
  type :: "string option"
  status :: "string option"
  position :: "int option"
  driver_id :: "string option"
  start_time :: "timestamptz option"
  preload_time :: "timestamptz option"
  complete_time :: "timestamptz option"
  depart_time :: "timestamptz option"
  created_at :: "timestamptz option"
  sleeves_needed :: int
  caps_needed :: int
  canvases_needed :: int
  totes_needed :: int
  hardlines_needed :: int
  softlines_needed :: int

text \<open>
  The table \<open>stores\<close> of the migration, reduced to the columns that are used here: the
  department number, the name and the six par levels. They are declared \<open>NOT NULL\<close>, so
  a row has a value in each of them. Tri-County is the first row of the seed data.
\<close>

record stores_row = supply_columns +
  stores_department_number :: string
  name :: string

definition tri_county :: stores_row where
  "tri_county =
     \<lparr> sleeves = Some 40, caps = Some 80, canvases = Some 12, totes = Some 21,
       hardlines_raw = Some 20, softlines_raw = Some 45,
       stores_department_number = ''9011'', name = ''Tri-County'' \<rparr>"

section \<open>The view \<open>run_supply_needs\<close>\<close>

text \<open>
  \<open>CURRENT_DATE\<close> is the parameter \<open>today\<close>. A view without \<open>ORDER BY\<close> returns its
  rows in no particular order; the lists below fix the order of a nested-loop plan, and
  the enum-to-text casts of the select list are the identity on the labels.
\<close>

definition todays :: "date \<Rightarrow> daily_container_count list \<Rightarrow> daily_container_count list" where
  "todays today dcc = filter (\<lambda>c. is_true (sql_eq (DATE (dcc_created_at c)) (Some today))) dcc"

definition daily_counts :: "date \<Rightarrow> daily_container_count list \<Rightarrow> string option list" where
  "daily_counts today dcc = remdups (map dcc_department_number (todays today dcc))"

text \<open>\<open>GROUP BY\<close> puts the rows with a NULL department number into one group.\<close>

definition totals_of :: "string option \<Rightarrow> daily_container_count list \<Rightarrow> store_total" where
  "totals_of d g =
     \<lparr> st_department_number = d,
       total_sleeves = SUM_agg (map sleeves g),
       total_caps = SUM_agg (map caps g),
       total_canvases = SUM_agg (map canvases g),
       total_totes = SUM_agg (map totes g),
       total_hardlines = SUM_agg (map hardlines_raw g),
       total_softlines = SUM_agg (map softlines_raw g) \<rparr>"

definition store_totals :: "date \<Rightarrow> daily_container_count list \<Rightarrow> store_total list" where
  "store_totals today dcc =
     map (\<lambda>d. totals_of d (filter (\<lambda>c. dcc_department_number c = d) (todays today dcc)))
       (remdups (map dcc_department_number (todays today dcc)))"

definition select_row ::
  "active_delivery_run \<Rightarrow> store_total option \<Rightarrow> store_supply option \<Rightarrow> run_supply_need" where
  "select_row r st ss =
     \<lparr> run_id = r_id r,
       store_name = r_store_name r,
       department_number = r_department_number r,
       run_type = r_run_type r,
       type = r_truck_type r,
       status = r_status r,
       position = r_position r,
       driver_id = r_driver_id r,
       start_time = r_start_time r,
       preload_time = r_preload_time r,
       complete_time = r_complete_time r,
       depart_time = r_depart_time r,
       created_at = r_created_at r,
       sleeves_needed = COALESCE (Option.bind ss sleeves) 0 - COALESCE (Option.bind st total_sleeves) 0,
       caps_needed = COALESCE (Option.bind ss caps) 0 - COALESCE (Option.bind st total_caps) 0,
       canvases_needed = COALESCE (Option.bind ss canvases) 0 - COALESCE (Option.bind st total_canvases) 0,
       totes_needed = COALESCE (Option.bind ss totes) 0 - COALESCE (Option.bind st total_totes) 0,
       hardlines_needed =
         COALESCE (Option.bind ss hardlines_raw) 0 - COALESCE (Option.bind st total_hardlines) 0,
       softlines_needed =
         COALESCE (Option.bind ss softlines_raw) 0 - COALESCE (Option.bind st total_softlines) 0 \<rparr>"

definition run_supply_needs ::
  "date \<Rightarrow> daily_container_count list \<Rightarrow> store_supply list \<Rightarrow> active_delivery_run list
     \<Rightarrow> run_supply_need list" where
  "run_supply_needs today dcc sss runs =
     (let r_st = left_join
                   (\<lambda>r st. is_true (sql_eq (r_department_number r) (st_department_number st)))
                   runs (store_totals today dcc);
          r_st_ss = left_join
                   (\<lambda>(r, st) ss. is_true (sql_eq (r_department_number r) (ss_department_number ss)))
                   r_st sss
      in map (\<lambda>((r, st), ss). select_row r st ss)
           (filter (\<lambda>((r, st), ss). is_true (sql_eq (DATE (r_created_at r)) (Some today))) r_st_ss))"

text \<open>
  The state the view reads, and a read of the view as a step on that state: it returns
  the rows and the state it leaves behind.
\<close>

record database =
  CURRENT_DATE :: date
  daily_container_counts :: "daily_container_count list"
  store_supplies :: "store_supply list"
  active_delivery_runs :: "active_delivery_run list"

definition select_run_supply_needs :: "database \<Rightarrow> run_supply_need list \<times> database" where
  "select_run_supply_needs db =
     (run_supply_needs (CURRENT_DATE db) (daily_container_counts db) (store_supplies db)
        (active_delivery_runs db), db)"

section \<open>The dashboard\<close>

text \<open>
  The interface \<open>Store\<close> of the dashboard. The rows the dashboard keeps in \<open>runs\<close> are
  the rows of the view, whatever the interface \<open>DeliveryRun\<close> declares, so they are
  \<open>run_supply_need\<close> records here. JavaScript strings are lists of characters.
\<close>

record Store =
  s_id :: string
  s_store_name :: string
  s_department_number :: string

datatype RunType = All_Runs | Box_Truck_Runs | Tractor_Trailer_Runs

record dashboard =
  runs :: "run_supply_need list"
  stores :: "Store list"
  loading :: bool
  error :: "string option"
  selectedType :: RunType
  showStoreDropdown :: "string option"

text \<open>
  What the dashboard sends to the backend: a select on one of two relations with the
  column to order by, or the remote procedure call that adds a run.
\<close>

record select_query =
  columns :: string
  order_column :: string
  ascending :: bool

record add_delivery_run_params =
  p_run_type :: "string option"
  p_store_id :: string
  p_store_name :: string
  p_department_number :: string
  p_truck_type :: string

datatype request =
    From_stores select_query
  | From_run_supply_needs select_query
  | Rpc_add_delivery_run add_delivery_run_params

text \<open>
  An awaited call resolves to an object with \<open>data\<close> and \<open>error\<close>, either of which can
  be null, or the promise is rejected and the \<open>await\<close> throws.
\<close>

datatype 'a response = Response "'a option" "string option" | Rejected

record server =
  select_stores :: "select_query \<Rightarrow> Store list response"
  select_needs :: "select_query \<Rightarrow> run_supply_need list response"
  rpc_add_delivery_run :: "add_delivery_run_params \<Rightarrow> unit response"

text \<open>
  Each asynchronous function returns the requests it sent, in order, and the state of the
  component after its state updates.
\<close>

definition fetchStores :: "server \<Rightarrow> dashboard \<Rightarrow> request list \<times> dashboard" where
  "fetchStores srv s =
     (let q = \<lparr> columns = ''*'', order_column = ''store_name'', ascending = True \<rparr> in
      ([From_stores q],
       case select_stores srv q of
         Response d None \<Rightarrow> s\<lparr> stores := (case d of None \<Rightarrow> [] | Some rows \<Rightarrow> rows) \<rparr>
       | Response d (Some storesError) \<Rightarrow> s\<lparr> error := Some ''Failed to fetch stores'' \<rparr>
       | Rejected \<Rightarrow> s\<lparr> error := Some ''Failed to fetch stores'' \<rparr>))"

definition fetchRuns :: "server \<Rightarrow> dashboard \<Rightarrow> request list \<times> dashboard" where
  "fetchRuns srv s =
     (let q = \<lparr> columns = ''*'', order_column = ''created_at'', ascending = False \<rparr> in
      ([From_run_supply_needs q],
       (case select_needs srv q of
          Response d None \<Rightarrow> s\<lparr> runs := (case d of None \<Rightarrow> [] | Some rows \<Rightarrow> rows) \<rparr>
        | Response d (Some runsError) \<Rightarrow> s\<lparr> error := Some ''Failed to fetch delivery runs'' \<rparr>
        | Rejected \<Rightarrow> s\<lparr> error := Some ''Failed to fetch delivery runs'' \<rparr>)
       \<lparr> loading := False \<rparr>))"

text \<open>
  \<open>String.prototype.split\<close> with a one-character separator: the pieces between the
  occurrences of the separator, empty pieces included, so the result is never empty.
\<close>

fun split :: "char \<Rightarrow> string \<Rightarrow> string list" where
  "split sep [] = [[]]"
| "split sep (c # cs) =
     (if c = sep then [] # split sep cs
      else (case split sep cs of [] \<Rightarrow> [[c]] | w # ws \<Rightarrow> (c # w) # ws))"

text \<open>Indexing an array at 0 is \<open>undefined\<close> (here \<open>None\<close>) when the array is empty.\<close>

definition add_run_params :: "Store \<Rightarrow> string \<Rightarrow> add_delivery_run_params" where
  "add_run_params store timeSlot =
     (let runType = (case split CHR '' '' timeSlot of [] \<Rightarrow> None | w # ws \<Rightarrow> Some w) in
      \<lparr> p_run_type = runType,
        p_store_id = s_id store,
        p_store_name = s_store_name store,
        p_department_number = s_department_number store,
        p_truck_type = ''box_truck'' \<rparr>)"

text \<open>
  \<open>addRun\<close> calls the procedure and, when it succeeded, closes the dropdown and reads the
  runs again; \<open>srv'\<close> is the backend after the call.
\<close>

definition addRun :: "server \<Rightarrow> server \<Rightarrow> Store \<Rightarrow> string \<Rightarrow> dashboard \<Rightarrow> request list \<times> dashboard" where
  "addRun srv srv' store timeSlot s =
     (let params = add_run_params store timeSlot in
      case rpc_add_delivery_run srv params of
        Response d None \<Rightarrow>
          (let (reqs, s') = fetchRuns srv' (s\<lparr> showStoreDropdown := None \<rparr>)
           in (Rpc_add_delivery_run params # reqs, s'))
      | Response d (Some addError) \<Rightarrow> ([Rpc_add_delivery_run params], s\<lparr> error := Some ''Failed to add run'' \<rparr>)
      | Rejected \<Rightarrow> ([Rpc_add_delivery_run params], s\<lparr> error := Some ''Failed to add run'' \<rparr>))"

text \<open>
  \<open>groupRunsByTime\<close> returns an object with one list per time slot, each a filter of
  the given runs on strict equality of the run type, which a NULL run type never meets.
\<close>

record grouped_runs =
  Morning_Runs :: "run_supply_need list"
  Afternoon_Runs :: "run_supply_need list"
  ADC_Runs :: "run_supply_need list"

definition groupRunsByTime :: "run_supply_need list \<Rightarrow> grouped_runs" where
  "groupRunsByTime rs =
     \<lparr> Morning_Runs = filter (\<lambda>run. run_type run = Some ''Morning'') rs,
       Afternoon_Runs = filter (\<lambda>run. run_type run = Some ''Afternoon'') rs,
       ADC_Runs = filter (\<lambda>run. run_type run = Some ''ADC'') rs \<rparr>"

text \<open>
  The dashboard renders one block per entry of the grouped runs, and the button of a
  block calls \<open>addRun\<close> with the key of that entry: \<open>Object.entries\<close> lists the keys of
  the object with their values, in the order in which \<open>groupRunsByTime\<close> writes them.
\<close>

definition Object_entries :: "grouped_runs \<Rightarrow> (string \<times> run_supply_need list) list" where
  "Object_entries g =
     [(''Morning Runs'', Morning_Runs g),
      (''Afternoon Runs'', Afternoon_Runs g),
      (''ADC Runs'', ADC_Runs g)]"

section \<open>The backend's answers to the two selects\<close>

text \<open>
  The backend's side of a select, as PostgREST and PostgreSQL answer it: \<open>ORDER BY\<close>
  sorts by the column, ascending with NULLs last or descending with NULLs first, and
  leaves the order of equal keys open (the lists below fix one). Text is compared
  character by character. A select that orders by a column the relation does not have
  is answered with an error.
\<close>

definition order_by :: "('a \<Rightarrow> 'k::linorder option) \<Rightarrow> bool \<Rightarrow> 'a list \<Rightarrow> 'a list" where
  "order_by key asc rows =
     (let present = sort_key (\<lambda>r. the (key r)) (filter (\<lambda>r. key r \<noteq> None) rows);
          nulls = filter (\<lambda>r. key r = None) rows
      in if asc then present @ nulls else nulls @ rev present)"

definition text_columns :: "(string \<times> (run_supply_need \<Rightarrow> string option)) list" where
  "text_columns =
     [(''run_id'', run_id), (''store_name'', store_name), (''department_number'', department_number),
      (''run_type'', run_type), (''type'', type), (''status'', status), (''driver_id'', driver_id)]"

definition integer_columns :: "(string \<times> (run_supply_need \<Rightarrow> int option)) list" where
  "integer_columns =
     [(''position'', position),
      (''sleeves_needed'', \<lambda>r. Some (sleeves_needed r)),
      (''caps_needed'', \<lambda>r. Some (caps_needed r)),
      (''canvases_needed'', \<lambda>r. Some (canvases_needed r)),
      (''totes_needed'', \<lambda>r. Some (totes_needed r)),
      (''hardlines_needed'', \<lambda>r. Some (hardlines_needed r)),
      (''softlines_needed'', \<lambda>r. Some (softlines_needed r))]"

definition timestamp_columns :: "(string \<times> (run_supply_need \<Rightarrow> timestamptz option)) list" where
  "timestamp_columns =
     [(''start_time'', start_time), (''preload_time'', preload_time),
      (''complete_time'', complete_time), (''depart_time'', depart_time),
      (''created_at'', created_at)]"

definition postgrest_run_supply_needs :: "database \<Rightarrow> select_query \<Rightarrow> run_supply_need list response" where
  "postgrest_run_supply_needs db q =
     (let rows = fst (select_run_supply_needs db) in
      case map_of text_columns (order_column q) of
        Some key \<Rightarrow> Response (Some (order_by key (ascending q) rows)) None
      | None \<Rightarrow>
     (case map_of integer_columns (order_column q) of
        Some key \<Rightarrow> Response (Some (order_by key (ascending q) rows)) None
      | None \<Rightarrow>
     (case map_of timestamp_columns (order_column q) of
        Some key \<Rightarrow> Response (Some (order_by key (ascending q) rows)) None
      | None \<Rightarrow> Response None (Some ''column does not exist''))))"



section \<open>The words of the specification\<close>

text \<open>
  The specification describes a deficit per run and supply type: the par level of the
  run's store minus the sum of today's counts of that store, each coalesced to zero. The
  definitions of this section follow these words, without the grouping and the joins of
  the view; the view is compared with them below.
\<close>

definition todays_counts_for :: "date \<Rightarrow> daily_container_count list \<Rightarrow> string option \<Rightarrow> daily_container_count list" where
  "todays_counts_for today dcc dept =
     filter (\<lambda>c. DATE (dcc_created_at c) = Some today \<and> dept \<noteq> None \<and> dcc_department_number c = dept) dcc"

definition par_levels :: "store_supply list \<Rightarrow> string option \<Rightarrow> store_supply option list" where
  "par_levels sss dept =
     (case filter (\<lambda>ss. dept \<noteq> None \<and> dept = ss_department_number ss) sss of
        [] \<Rightarrow> [None]
      | p # ps \<Rightarrow> map Some (p # ps))"

definition created_today :: "date \<Rightarrow> active_delivery_run \<Rightarrow> bool" where
  "created_today today r = (DATE (r_created_at r) = Some today)"

definition deficit :: "int option \<Rightarrow> int option \<Rightarrow> int" where
  "deficit parLevel summedCount = COALESCE parLevel 0 - COALESCE summedCount 0"

text \<open>
  The row the specification expects for a run \<open>r\<close>, a par-level row \<open>p\<close> (or none) and
  the count facts \<open>cs\<close> of today for the run's store, and the rows for all par-level rows
  of a run.
\<close>

definition expected_row ::
  "active_delivery_run \<Rightarrow> store_supply option \<Rightarrow> daily_container_count list \<Rightarrow> run_supply_need" where
  "expected_row r p cs =
     \<lparr> run_id = r_id r,
       store_name = r_store_name r,
       department_number = r_department_number r,
       run_type = r_run_type r,
       type = r_truck_type r,
       status = r_status r,
       position = r_position r,
       driver_id = r_driver_id r,
       start_time = r_start_time r,
       preload_time = r_preload_time r,
       complete_time = r_complete_time r,
       depart_time = r_depart_time r,
       created_at = r_created_at r,
       sleeves_needed = deficit (Option.bind p sleeves) (SUM_agg (map sleeves cs)),
       caps_needed = deficit (Option.bind p caps) (SUM_agg (map caps cs)),
       canvases_needed = deficit (Option.bind p canvases) (SUM_agg (map canvases cs)),
       totes_needed = deficit (Option.bind p totes) (SUM_agg (map totes cs)),
       hardlines_needed = deficit (Option.bind p hardlines_raw) (SUM_agg (map hardlines_raw cs)),
       softlines_needed = deficit (Option.bind p softlines_raw) (SUM_agg (map softlines_raw cs)) \<rparr>"

definition rows_of_run ::
  "date \<Rightarrow> daily_container_count list \<Rightarrow> store_supply list \<Rightarrow> active_delivery_run \<Rightarrow> run_supply_need list" where
  "rows_of_run today dcc sss r =
     map (\<lambda>p. expected_row r p (todays_counts_for today dcc (r_department_number r)))
       (par_levels sss (r_department_number r))"

text \<open>
  The view passes the thirteen columns of a run through, so a row determines the run it
  was made from.
\<close>

definition run_of :: "run_supply_need \<Rightarrow> active_delivery_run" where
  "run_of row =
     \<lparr> r_id = run_id row,
       r_store_name = store_name row,
       r_department_number = department_number row,
       r_run_type = run_type row,
       r_truck_type = type row,
       r_status = status row,
       r_position = position row,
       r_driver_id = driver_id row,
       r_start_time = start_time row,
       r_preload_time = preload_time row,
       r_complete_time = complete_time row,
       r_depart_time = depart_time row,
       r_created_at = created_at row \<rparr>"

text \<open>The words of the specification: the first whitespace-delimited token of a label.\<close>

definition is_whitespace :: "char \<Rightarrow> bool" where
  "is_whitespace c = (c \<in> {CHR '' '', CHR 0x09, CHR 0x0A, CHR 0x0B, CHR 0x0C, CHR 0x0D})"

definition first_token :: "string \<Rightarrow> string" where
  "first_token s = takeWhile (\<lambda>c. \<not> is_whitespace c) (dropWhile is_whitespace s)"

text \<open>A read fails when its answer carries an error or the call is rejected.\<close>

definition failed :: "'a response \<Rightarrow> bool" where
  "failed r = (case r of Response d None \<Rightarrow> False | Response d (Some e) \<Rightarrow> True | Rejected \<Rightarrow> True)"

section \<open>Example data\<close>

text \<open>
  Day 20000 starts at second 1728000000. Two runs are created on that day, one for
  Tri-County and one for Cheviot, and one the day before; Tri-County has two count facts
  on that day and one on the day before; only Tri-County has par levels.
\<close>

definition par_row_of :: "stores_row \<Rightarrow> store_supply" where
  "par_row_of s =
     \<lparr> sleeves = sleeves s, caps = caps s, canvases = canvases s, totes = totes s,
       hardlines_raw = hardlines_raw s, softlines_raw = softlines_raw s,
       ss_department_number = Some (stores_department_number s) \<rparr>"

definition ex_today :: date where
  "ex_today = 20000"

definition ex_run :: "string \<Rightarrow> string \<Rightarrow> string \<Rightarrow> timestamptz \<Rightarrow> active_delivery_run" where
  "ex_run i nm dept t =
     \<lparr> r_id = Some i, r_store_name = Some nm, r_department_number = Some dept,
       r_run_type = Some ''Morning'', r_truck_type = Some ''box_truck'', r_status = Some ''pending'',
       r_position = None, r_driver_id = None, r_start_time = None, r_preload_time = None,
       r_complete_time = None, r_depart_time = None, r_created_at = Some t \<rparr>"

definition ex_count :: "string \<Rightarrow> int \<Rightarrow> timestamptz \<Rightarrow> daily_container_count" where
  "ex_count dept n t =
     \<lparr> sleeves = Some n, caps = Some (2 * n), canvases = Some 0, totes = None,
       hardlines_raw = Some 1, softlines_raw = Some 50,
       dcc_department_number = Some dept, dcc_created_at = Some t \<rparr>"

definition ex_runs :: "active_delivery_run list" where
  "ex_runs = [ex_run ''r1'' ''Tri-County'' ''9011'' 1728000600,
              ex_run ''r2'' ''Cheviot'' ''9012'' 1728003600,
              ex_run ''r3'' ''Tri-County'' ''9011'' 1727999999]"

definition ex_counts :: "daily_container_count list" where
  "ex_counts = [ex_count ''9011'' 7 1728000100, ex_count ''9012'' 3 1728000200,
                ex_count ''9011'' 8 1728000300, ex_count ''9011'' 100 1727990000]"

definition ex_supplies :: "store_supply list" where
  "ex_supplies = [par_row_of tri_county]"

text \<open>
  A second table of par levels, with two rows for the department of Tri-County.
\<close>

definition ex_supplies_twice :: "store_supply list" where
  "ex_supplies_twice = [par_row_of tri_county, (par_row_of tri_county) \<lparr> sleeves := Some 10 \<rparr>]"

definition ex_db :: database where
  "ex_db = \<lparr> CURRENT_DATE = ex_today, daily_container_counts = ex_counts,
             store_supplies = ex_supplies, active_delivery_runs = ex_runs \<rparr>"

definition cheviot :: Store where
  "cheviot = \<lparr> s_id = ''7c1d'', s_store_name = ''Cheviot'', s_department_number = ''9012'' \<rparr>"

definition ex_stores :: "Store list" where
  "ex_stores =
     [\<lparr> s_id = ''a1'', s_store_name = ''Tri-County'', s_department_number = ''9011'' \<rparr>,
      cheviot,
      \<lparr> s_id = ''b7'', s_store_name = ''Hamilton'', s_department_number = ''9015'' \<rparr>]"

text \<open>
  A server that answers the read of the stores with three rows and the read of the runs
  from the example database.
\<close>

definition ex_server :: server where
  "ex_server =
     \<lparr> select_stores = (\<lambda>q. Response (Some ex_stores) None),
       select_needs = postgrest_run_supply_needs ex_db,
       rpc_add_delivery_run = (\<lambda>p. Response None None) \<rparr>"


definition failing_server :: server where
  "failing_server =
     \<lparr> select_stores = (\<lambda>q. Response None (Some ''connection refused'')),
       select_needs = (\<lambda>q. Rejected),
       rpc_add_delivery_run = (\<lambda>p. Rejected) \<rparr>"

definition initial :: dashboard where
  "initial = \<lparr> runs = [], stores = [], loading = True, error = None,
               selectedType = All_Runs, showStoreDropdown = None \<rparr>"

definition tagged :: "string \<Rightarrow> string option \<Rightarrow> run_supply_need" where
  "tagged i tag =
     (expected_row (ex_run i ''Cheviot'' ''9012'' 1728003600) None []) \<lparr> run_type := tag \<rparr>"

definition ex_fetched :: "run_supply_need list" where
  "ex_fetched =
     [tagged ''r1'' (Some ''Morning''), tagged ''r2'' (Some ''morning''), tagged ''r3'' (Some ''ADC''),
      tagged ''r4'' (Some '' Morning''), tagged ''r5'' None, tagged ''r1'' (Some ''Morning'')]"

section \<open>The view and the specified rows\<close>

subsection \<open>The SQL operators\<close>

lemma is_true_sql_eq: "is_true (sql_eq a b) \<longleftrightarrow> a \<noteq> None \<and> a = b"
  by (auto simp: is_true_def sql_eq_def split: option.splits)

lemma is_true_sql_eq_Some: "is_true (sql_eq a (Some y)) \<longleftrightarrow> a = Some y"
  by (auto simp: is_true_sql_eq)

lemma SUM_agg_Nil [simp]: "SUM_agg [] = None"
  by (simp add: SUM_agg_def List.map_filter_simps)

lemma left_join_Nil [simp]: "left_join on [] rs = []"
  by (simp add: left_join_def)

lemma left_join_append: "left_join on (xs @ ys) rs = left_join on xs rs @ left_join on ys rs"
  by (simp add: left_join_def)

lemma left_join_single:
  "left_join on [l] rs = (case filter (on l) rs of [] \<Rightarrow> [(l, None)] | m # ms \<Rightarrow> map (\<lambda>m'. (l, Some m')) (m # ms))"
  by (simp add: left_join_def)

subsection \<open>The totals of a store\<close>

lemma remdups_replicate_same: "remdups (replicate n k) = (if n = 0 then [] else [k])"
  by (induction n) simp_all

lemma remdups_const:
  assumes "\<forall>x\<in>set xs. x = k"
  shows "remdups xs = (if xs = [] then [] else [k])"
proof -
  have "xs = replicate (length xs) k"
    using assms by (simp add: replicate_length_same)
  then have "remdups xs = remdups (replicate (length xs) k)"
    by simp
  then show ?thesis
    by (simp add: remdups_replicate_same)
qed

lemma totals_of_dept [simp]: "st_department_number (totals_of d g) = d"
  by (simp add: totals_of_def)

lemma group_of_store:
  "d \<noteq> None \<Longrightarrow> filter (\<lambda>c. dcc_department_number c = d) (todays today dcc) = todays_counts_for today dcc d"
  by (simp add: todays_def todays_counts_for_def is_true_sql_eq_Some)

lemma keys_nonempty:
  "d \<noteq> None \<Longrightarrow> (filter (\<lambda>k. d = k) (map dcc_department_number (todays today dcc)) = []) \<longleftrightarrow> (todays_counts_for today dcc d = [])"
proof -
  assume d: "d \<noteq> None"
  have "(filter (\<lambda>k. d = k) (map dcc_department_number (todays today dcc)) = []) \<longleftrightarrow>
        (filter (\<lambda>c. dcc_department_number c = d) (todays today dcc) = [])"
    by (auto simp: filter_empty_conv)
  then show ?thesis using group_of_store[OF d] by simp
qed

lemma matching_keys:
  "d \<noteq> None \<Longrightarrow> filter (\<lambda>k. is_true (sql_eq d k)) (remdups (map dcc_department_number (todays today dcc))) =
      (if todays_counts_for today dcc d = [] then [] else [d])"
proof -
  assume d: "d \<noteq> None"
  let ?keys = "map dcc_department_number (todays today dcc)"
  have "filter (\<lambda>k. is_true (sql_eq d k)) (remdups ?keys) = remdups (filter (\<lambda>k. d = k) ?keys)"
    using d by (simp add: remdups_filter is_true_sql_eq)
  also have "\<dots> = (if filter (\<lambda>k. d = k) ?keys = [] then [] else [d])"
    by (rule remdups_const) simp
  finally show ?thesis using keys_nonempty[OF d] by simp
qed

lemma filter_store_totals:
  "filter (\<lambda>st. is_true (sql_eq d (st_department_number st))) (store_totals today dcc) =
      map (\<lambda>k. totals_of k (filter (\<lambda>c. dcc_department_number c = k) (todays today dcc)))
        (filter (\<lambda>k. is_true (sql_eq d k)) (remdups (map dcc_department_number (todays today dcc))))"
  unfolding store_totals_def filter_map o_def by simp

lemma matching_totals:
  "filter (\<lambda>st. is_true (sql_eq d (st_department_number st))) (store_totals today dcc) =
     (if todays_counts_for today dcc d = [] then [] else [totals_of d (todays_counts_for today dcc d)])"
proof (cases "d = None")
  case True
  then show ?thesis by (simp add: is_true_sql_eq todays_counts_for_def)
next
  case False
  show ?thesis
    unfolding filter_store_totals matching_keys[OF False]
    by (simp add: group_of_store[OF False])
qed

subsection \<open>The view, run by run\<close>

text \<open>
  The grouping and the two joins of the view give, for every run created today, the rows
  the specification expects, in the order of the runs.
\<close>

lemma select_row_expected:
  "select_row r (if cs = [] then None else Some (totals_of d cs)) p = expected_row r p cs"
  by (simp add: select_row_def expected_row_def deficit_def totals_of_def)

lemma join_totals_single:
  "left_join (\<lambda>r st. is_true (sql_eq (r_department_number r) (st_department_number st))) [r] (store_totals today dcc) =
     [(r, let cs = todays_counts_for today dcc (r_department_number r) in
            if cs = [] then None else Some (totals_of (r_department_number r) cs))]"
  by (simp add: left_join_single matching_totals Let_def)

lemma join_supplies_single:
  "left_join (\<lambda>(r, st) ss. is_true (sql_eq (r_department_number r) (ss_department_number ss))) [(r, st)] sss =
     map (\<lambda>p. ((r, st), p)) (par_levels sss (r_department_number r))"
proof -
  let ?ms = "filter (\<lambda>ss. r_department_number r \<noteq> None \<and> r_department_number r = ss_department_number ss) sss"
  have "left_join (\<lambda>(r, st) ss. is_true (sql_eq (r_department_number r) (ss_department_number ss))) [(r, st)] sss =
        (case ?ms of [] \<Rightarrow> [((r, st), None)] | m # ms \<Rightarrow> map (\<lambda>m'. ((r, st), Some m')) (m # ms))"
    by (simp add: left_join_single is_true_sql_eq)
  also have "\<dots> = map (\<lambda>p. ((r, st), p)) (par_levels sss (r_department_number r))"
    unfolding par_levels_def by (cases ?ms) (simp_all add: o_def)
  finally show ?thesis .
qed

lemma run_supply_needs_single:
  "run_supply_needs today dcc sss [r] = (if created_today today r then rows_of_run today dcc sss r else [])"
  unfolding run_supply_needs_def Let_def join_totals_single join_supplies_single
  by (simp add: filter_map o_def is_true_sql_eq_Some created_today_def rows_of_run_def select_row_expected)

lemma run_supply_needs_append:
  "run_supply_needs today dcc sss (xs @ ys) = run_supply_needs today dcc sss xs @ run_supply_needs today dcc sss ys"
  by (simp add: run_supply_needs_def left_join_append)

lemma run_supply_needs_Nil [simp]: "run_supply_needs today dcc sss [] = []"
  by (simp add: run_supply_needs_def)

lemma run_supply_needs_Cons:
  "run_supply_needs today dcc sss (r # rs) =
     (if created_today today r then rows_of_run today dcc sss r else []) @ run_supply_needs today dcc sss rs"
  using run_supply_needs_append[of today dcc sss "[r]" rs] by (simp add: run_supply_needs_single)

lemma run_supply_needs_refine:
  "run_supply_needs today dcc sss rs =
     concat (map (rows_of_run today dcc sss) (filter (created_today today) rs))"
  by (induction rs) (simp_all add: run_supply_needs_Cons)

lemma run_of_expected_row [simp]: "run_of (expected_row r p cs) = r"
  by (simp add: run_of_def expected_row_def)

lemma par_levels_nonempty [simp]: "par_levels sss d \<noteq> []"
  by (simp add: par_levels_def split: list.splits)

lemma set_par_levels:
  "set (par_levels sss d) =
     (if filter (\<lambda>ss. d \<noteq> None \<and> d = ss_department_number ss) sss = [] then {None}
      else Some ` set (filter (\<lambda>ss. d \<noteq> None \<and> d = ss_department_number ss) sss))"
proof -
  have "set (case ms of [] \<Rightarrow> [None] | p # ps \<Rightarrow> map Some (p # ps)) =
        (if ms = [] then {None} else Some ` set ms)" for ms :: "store_supply list"
    by (cases ms) simp_all
  then show ?thesis
    unfolding par_levels_def .
qed

lemma par_levels_unmatched:
  assumes "\<forall>ss\<in>set sss. \<not> is_true (sql_eq d (ss_department_number ss))"
  shows "par_levels sss d = [None]"
proof -
  have "filter (\<lambda>ss. d \<noteq> None \<and> d = ss_department_number ss) sss = []"
    using assms by (simp add: filter_empty_conv is_true_sql_eq)
  then show ?thesis
    by (simp add: par_levels_def)
qed

lemma in_run_supply_needs:
  "row \<in> set (run_supply_needs today dcc sss rs) \<longleftrightarrow>
     (\<exists>r\<in>set rs. created_today today r \<and>
        (\<exists>p\<in>set (par_levels sss (r_department_number r)).
           row = expected_row r p (todays_counts_for today dcc (r_department_number r))))"
  by (auto simp: run_supply_needs_refine rows_of_run_def)

lemma view_rows_have_created_at:
  assumes "row \<in> set (run_supply_needs today dcc sss rs)"
  shows "created_at row \<noteq> None"
proof -
  from assms obtain r p where "created_today today r"
    and "row = expected_row r p (todays_counts_for today dcc (r_department_number r))"
    unfolding in_run_supply_needs by blast
  then show ?thesis
    by (auto simp: expected_row_def created_today_def DATE_def)
qed

lemma todays_drop_stale:
  "DATE (dcc_created_at c) \<noteq> Some today \<Longrightarrow> todays today (xs @ c # ys) = todays today (xs @ ys)"
  by (simp add: todays_def is_true_sql_eq_Some)

subsection \<open>The runs behind the rows\<close>

lemma map_run_of_rows:
  "map run_of (rows_of_run today dcc sss r) = replicate (length (par_levels sss (r_department_number r))) r"
  by (simp add: rows_of_run_def o_def map_replicate_const)

lemma run_of_needs_set:
  "run_of ` set (run_supply_needs today dcc sss rs) = {r \<in> set rs. created_today today r}"
proof -
  have "run_of ` set (rows_of_run today dcc sss r) = {r}" for r
    using map_run_of_rows[of today dcc sss r] par_levels_nonempty[of sss "r_department_number r"]
    by (metis length_0_conv list.set_map set_replicate)
  then show ?thesis
    by (auto simp: run_supply_needs_refine image_UN)
qed

lemma length_par_levels:
  "length (par_levels sss d) =
     max 1 (length (filter (\<lambda>ss. is_true (sql_eq d (ss_department_number ss))) sss))"
proof -
  have "length (case ms of [] \<Rightarrow> [None] | p # ps \<Rightarrow> map Some (p # ps)) = max 1 (length ms)"
    for ms :: "store_supply list"
    by (cases ms) simp_all
  then show ?thesis
    by (simp add: par_levels_def is_true_sql_eq)
qed

lemma mset_run_of_rows:
  "image_mset run_of (mset (rows_of_run today dcc sss a)) =
     replicate_mset (length (par_levels sss (r_department_number a))) a"
proof -
  have "mset (map run_of (rows_of_run today dcc sss a)) =
        mset (replicate (length (par_levels sss (r_department_number a))) a)"
    by (simp only: map_run_of_rows)
  then show ?thesis
    by simp
qed

lemma count_run_of_needs:
  "count (mset (map run_of (run_supply_needs today dcc sss rs))) r =
     (if created_today today r
      then count (mset rs) r *
           max 1 (length (filter (\<lambda>ss. is_true (sql_eq (r_department_number r) (ss_department_number ss))) sss))
      else 0)"
proof (induction rs)
  case Nil
  then show ?case by simp
next
  case (Cons a rs)
  show ?case
  proof (cases "a = r")
    case True
    with Cons show ?thesis
      by (simp add: run_supply_needs_Cons mset_run_of_rows length_par_levels)
  next
    case False
    with Cons show ?thesis
      by (simp add: run_supply_needs_Cons mset_run_of_rows)
  qed
qed

subsection \<open>The rows as a bag\<close>

text \<open>
  A table is a bag of rows: the order in which it is stored or scanned is not part of
  its contents. The view, as a bag, depends on the bags only.
\<close>

lemma mset_map_filter:
  "mset xs = mset ys \<Longrightarrow> mset (List.map_filter f xs) = mset (List.map_filter f ys)"
proof -
  assume "mset xs = mset ys"
  then have "image_mset (the \<circ> f) (filter_mset (\<lambda>x. f x \<noteq> None) (mset xs)) =
             image_mset (the \<circ> f) (filter_mset (\<lambda>x. f x \<noteq> None) (mset ys))"
    by simp
  then show ?thesis
    by (simp add: List.map_filter_def)
qed

lemma SUM_agg_mset:
  assumes "mset xs = mset ys"
  shows "SUM_agg xs = SUM_agg ys"
proof -
  let ?vs = "List.map_filter (\<lambda>x. x) xs" and ?ws = "List.map_filter (\<lambda>x. x) ys"
  have m: "mset ?vs = mset ?ws"
    using assms by (rule mset_map_filter)
  then have "sum_list ?vs = sum_list ?ws"
    by (metis sum_mset_sum_list)
  moreover from m have "?vs = [] \<longleftrightarrow> ?ws = []"
    by (metis mset_zero_iff)
  ultimately show ?thesis
    by (cases ?vs; cases ?ws) (simp_all add: SUM_agg_def)
qed

lemma SUM_agg_column_mset:
  "mset cs = mset cs' \<Longrightarrow> SUM_agg (map f cs) = SUM_agg (map f cs')"
  by (rule SUM_agg_mset) (metis mset_map)

lemma expected_row_mset:
  assumes "mset cs = mset cs'"
  shows "expected_row r p cs = expected_row r p cs'"
  unfolding expected_row_def
  by (simp only: SUM_agg_column_mset[OF assms])

lemma todays_counts_for_mset:
  "mset dcc = mset dcc' \<Longrightarrow> mset (todays_counts_for today dcc d) = mset (todays_counts_for today dcc' d)"
  by (simp add: todays_counts_for_def)

lemma par_levels_mset:
  assumes "mset sss = mset sss'"
  shows "mset (par_levels sss d) = mset (par_levels sss' d)"
proof -
  let ?P = "\<lambda>ss. d \<noteq> None \<and> d = ss_department_number ss"
  have shape: "mset (case ms of [] \<Rightarrow> [None] | p # ps \<Rightarrow> map Some (p # ps)) =
        (if mset ms = {#} then {#None#} else image_mset Some (mset ms))" for ms :: "store_supply list"
    by (cases ms) simp_all
  have "mset (filter ?P sss) = mset (filter ?P sss')"
    using assms by simp
  then show ?thesis
    unfolding par_levels_def shape by (simp only:)
qed

lemma rows_of_run_mset:
  assumes "mset dcc = mset dcc'" and "mset sss = mset sss'"
  shows "mset (rows_of_run today dcc sss r) = mset (rows_of_run today dcc' sss' r)"
proof -
  have e: "expected_row r p (todays_counts_for today dcc (r_department_number r)) =
           expected_row r p (todays_counts_for today dcc' (r_department_number r))" for p
    by (rule expected_row_mset) (rule todays_counts_for_mset[OF assms(1)])
  have "mset (rows_of_run today dcc sss r) =
        image_mset (\<lambda>p. expected_row r p (todays_counts_for today dcc' (r_department_number r)))
          (mset (par_levels sss (r_department_number r)))"
    by (simp add: rows_of_run_def e)
  also have "\<dots> = mset (rows_of_run today dcc' sss' r)"
    by (simp add: rows_of_run_def par_levels_mset[OF assms(2)])
  finally show ?thesis .
qed

lemma mset_concat_map:
  "mset (concat (map f xs)) = (\<Sum>x\<in>#mset xs. mset (f x))"
  by (induction xs) simp_all

lemma mset_run_supply_needs:
  "mset (run_supply_needs today dcc sss rs) =
     (\<Sum>r\<in>#filter_mset (created_today today) (mset rs). mset (rows_of_run today dcc sss r))"
  by (simp add: run_supply_needs_refine mset_concat_map)

lemma run_supply_needs_mset:
  assumes "mset dcc = mset dcc'" and "mset sss = mset sss'" and "mset rs = mset rs'"
  shows "mset (run_supply_needs today dcc sss rs) = mset (run_supply_needs today dcc' sss' rs')"
  unfolding mset_run_supply_needs assms(3)
  by (simp only: rows_of_run_mset[OF assms(1,2)])

subsection \<open>The example\<close>

lemma ex_view:
  "run_supply_needs ex_today ex_counts ex_supplies ex_runs =
     [expected_row (ex_run ''r1'' ''Tri-County'' ''9011'' 1728000600) (Some (par_row_of tri_county))
        [ex_count ''9011'' 7 1728000100, ex_count ''9011'' 8 1728000300],
      expected_row (ex_run ''r2'' ''Cheviot'' ''9012'' 1728003600) None
        [ex_count ''9012'' 3 1728000200]]"
  by code_simp

section \<open>The supply deficit aggregator\<close>

text \<open>
  C1. Every row of the view belongs to a run \<open>r\<close> created today and to a par-level row
  \<open>p\<close> joined to it (NULL when the store has none), and each of its six deficits is
  \<open>COALESCE(par level, 0) - COALESCE(sum of today's counts of the run's store, 0)\<close>, as
  a signed integer: nothing clamps a negative difference.
\<close>

theorem deficit_is_par_minus_todays_sum:
  assumes "row \<in> set (run_supply_needs today dcc sss rs)"
  shows "\<exists>r\<in>set rs. \<exists>p\<in>set (par_levels sss (r_department_number r)).
           created_today today r \<and> run_of row = r \<and>
           sleeves_needed row = COALESCE (Option.bind p sleeves) 0
             - COALESCE (SUM_agg (map sleeves (todays_counts_for today dcc (r_department_number r)))) 0 \<and>
           caps_needed row = COALESCE (Option.bind p caps) 0
             - COALESCE (SUM_agg (map caps (todays_counts_for today dcc (r_department_number r)))) 0 \<and>
           canvases_needed row = COALESCE (Option.bind p canvases) 0
             - COALESCE (SUM_agg (map canvases (todays_counts_for today dcc (r_department_number r)))) 0 \<and>
           totes_needed row = COALESCE (Option.bind p totes) 0
             - COALESCE (SUM_agg (map totes (todays_counts_for today dcc (r_department_number r)))) 0 \<and>
           hardlines_needed row = COALESCE (Option.bind p hardlines_raw) 0
             - COALESCE (SUM_agg (map hardlines_raw (todays_counts_for today dcc (r_department_number r)))) 0 \<and>
           softlines_needed row = COALESCE (Option.bind p softlines_raw) 0
             - COALESCE (SUM_agg (map softlines_raw (todays_counts_for today dcc (r_department_number r)))) 0"
proof -
  from assms obtain r p where r: "r \<in> set rs" "created_today today r"
    and p: "p \<in> set (par_levels sss (r_department_number r))"
    and row: "row = expected_row r p (todays_counts_for today dcc (r_department_number r))"
    unfolding in_run_supply_needs by blast
  have "run_of row = r"
    by (simp add: row)
  moreover have "sleeves_needed row = COALESCE (Option.bind p sleeves) 0
             - COALESCE (SUM_agg (map sleeves (todays_counts_for today dcc (r_department_number r)))) 0"
    by (simp add: row expected_row_def deficit_def)
  moreover have "caps_needed row = COALESCE (Option.bind p caps) 0
             - COALESCE (SUM_agg (map caps (todays_counts_for today dcc (r_department_number r)))) 0"
    by (simp add: row expected_row_def deficit_def)
  moreover have "canvases_needed row = COALESCE (Option.bind p canvases) 0
             - COALESCE (SUM_agg (map canvases (todays_counts_for today dcc (r_department_number r)))) 0"
    by (simp add: row expected_row_def deficit_def)
  moreover have "totes_needed row = COALESCE (Option.bind p totes) 0
             - COALESCE (SUM_agg (map totes (todays_counts_for today dcc (r_department_number r)))) 0"
    by (simp add: row expected_row_def deficit_def)
  moreover have "hardlines_needed row = COALESCE (Option.bind p hardlines_raw) 0
             - COALESCE (SUM_agg (map hardlines_raw (todays_counts_for today dcc (r_department_number r)))) 0"
    by (simp add: row expected_row_def deficit_def)
  moreover have "softlines_needed row = COALESCE (Option.bind p softlines_raw) 0
             - COALESCE (SUM_agg (map softlines_raw (todays_counts_for today dcc (r_department_number r)))) 0"
    by (simp add: row expected_row_def deficit_def)
  ultimately show ?thesis
    using r p by blast
qed

theorem deficit_is_par_minus_todays_sum_witness:
  "\<exists>row\<in>set (run_supply_needs ex_today ex_counts ex_supplies ex_runs).
     \<exists>r\<in>set ex_runs. run_of row = r \<and> r_id r = Some ''r1'' \<and> sleeves_needed row = 25 \<and> softlines_needed row = - 55"
proof -
  let ?row = "hd (run_supply_needs ex_today ex_counts ex_supplies ex_runs)"
  have h: "?row \<in> set (run_supply_needs ex_today ex_counts ex_supplies ex_runs)"
    by (simp add: ex_view)
  from deficit_is_par_minus_todays_sum[OF h]
  obtain r where "r \<in> set ex_runs" "run_of ?row = r"
    by blast
  moreover have "r_id (run_of ?row) = Some ''r1''" "sleeves_needed ?row = 25" "softlines_needed ?row = - 55"
    by code_simp+
  ultimately show ?thesis
    using h by blast
qed

text \<open>
  C2. A count fact whose date is not the current date (or is NULL) contributes to no
  row of the view: the view with the fact, at any place of the table, is the view without
  it.
\<close>

theorem stale_counts_do_not_contribute:
  assumes "DATE (dcc_created_at c) \<noteq> Some today"
  shows "run_supply_needs today (xs @ c # ys) sss rs = run_supply_needs today (xs @ ys) sss rs"
  by (simp add: run_supply_needs_def store_totals_def todays_drop_stale[OF assms])

theorem stale_counts_do_not_contribute_witness:
  "DATE (dcc_created_at (ex_count ''9011'' 100 1727990000)) \<noteq> Some ex_today \<and>
   run_supply_needs ex_today ex_counts ex_supplies ex_runs =
   run_supply_needs ex_today
     [ex_count ''9011'' 7 1728000100, ex_count ''9012'' 3 1728000200, ex_count ''9011'' 8 1728000300]
     ex_supplies ex_runs"
proof -
  have h: "DATE (dcc_created_at (ex_count ''9011'' 100 1727990000)) \<noteq> Some ex_today"
    by (simp add: DATE_def ex_count_def ex_today_def)
  have "ex_counts =
      [ex_count ''9011'' 7 1728000100, ex_count ''9012'' 3 1728000200, ex_count ''9011'' 8 1728000300]
      @ ex_count ''9011'' 100 1727990000 # []"
    by (simp add: ex_counts_def)
  with stale_counts_do_not_contribute[OF h, of
      "[ex_count ''9011'' 7 1728000100, ex_count ''9012'' 3 1728000200, ex_count ''9011'' 8 1728000300]"
      "[]" ex_supplies ex_runs]
  show ?thesis using h by simp
qed

text \<open>
  C3. A run created today whose department number matches no row of \<open>store_supplies\<close>
  still has a row in the view, and in every row of that run each of the six deficits is
  the negative of today's summed count of its store, hence zero when the store has no
  count fact today.
\<close>

theorem run_without_par_levels:
  assumes "r \<in> set rs" and "created_today today r"
    and "\<forall>ss\<in>set sss. \<not> is_true (sql_eq (r_department_number r) (ss_department_number ss))"
  shows "(\<exists>row\<in>set (run_supply_needs today dcc sss rs). run_of row = r) \<and>
         (\<forall>row\<in>set (run_supply_needs today dcc sss rs). run_of row = r \<longrightarrow>
            sleeves_needed row = - COALESCE (SUM_agg (map sleeves (todays_counts_for today dcc (r_department_number r)))) 0 \<and>
            caps_needed row = - COALESCE (SUM_agg (map caps (todays_counts_for today dcc (r_department_number r)))) 0 \<and>
            canvases_needed row = - COALESCE (SUM_agg (map canvases (todays_counts_for today dcc (r_department_number r)))) 0 \<and>
            totes_needed row = - COALESCE (SUM_agg (map totes (todays_counts_for today dcc (r_department_number r)))) 0 \<and>
            hardlines_needed row = - COALESCE (SUM_agg (map hardlines_raw (todays_counts_for today dcc (r_department_number r)))) 0 \<and>
            softlines_needed row = - COALESCE (SUM_agg (map softlines_raw (todays_counts_for today dcc (r_department_number r)))) 0 \<and>
            (todays_counts_for today dcc (r_department_number r) = [] \<longrightarrow>
               sleeves_needed row = 0 \<and> caps_needed row = 0 \<and> canvases_needed row = 0 \<and>
               totes_needed row = 0 \<and> hardlines_needed row = 0 \<and> softlines_needed row = 0))"
proof -
  let ?cs = "todays_counts_for today dcc (r_department_number r)"
  have pl: "par_levels sss (r_department_number r) = [None]"
    using assms(3) by (rule par_levels_unmatched)
  have "expected_row r None ?cs \<in> set (run_supply_needs today dcc sss rs)"
    unfolding in_run_supply_needs using assms(1,2) pl by auto
  then have ex: "\<exists>row\<in>set (run_supply_needs today dcc sss rs). run_of row = r"
    using run_of_expected_row by blast
  have rows: "row = expected_row r None ?cs"
    if "row \<in> set (run_supply_needs today dcc sss rs)" "run_of row = r" for row
  proof -
    from that(1) obtain r' p where "p \<in> set (par_levels sss (r_department_number r'))"
      and row: "row = expected_row r' p (todays_counts_for today dcc (r_department_number r'))"
      unfolding in_run_supply_needs by blast
    moreover from row that(2) have "r' = r"
      by simp
    ultimately show ?thesis
      using pl by simp
  qed
  have vals: "sleeves_needed (expected_row r None ?cs) = - COALESCE (SUM_agg (map sleeves ?cs)) 0"
    "caps_needed (expected_row r None ?cs) = - COALESCE (SUM_agg (map caps ?cs)) 0"
    "canvases_needed (expected_row r None ?cs) = - COALESCE (SUM_agg (map canvases ?cs)) 0"
    "totes_needed (expected_row r None ?cs) = - COALESCE (SUM_agg (map totes ?cs)) 0"
    "hardlines_needed (expected_row r None ?cs) = - COALESCE (SUM_agg (map hardlines_raw ?cs)) 0"
    "softlines_needed (expected_row r None ?cs) = - COALESCE (SUM_agg (map softlines_raw ?cs)) 0"
    by (simp_all add: expected_row_def deficit_def COALESCE_def)
  have "sleeves_needed row = - COALESCE (SUM_agg (map sleeves ?cs)) 0 \<and>
        caps_needed row = - COALESCE (SUM_agg (map caps ?cs)) 0 \<and>
        canvases_needed row = - COALESCE (SUM_agg (map canvases ?cs)) 0 \<and>
        totes_needed row = - COALESCE (SUM_agg (map totes ?cs)) 0 \<and>
        hardlines_needed row = - COALESCE (SUM_agg (map hardlines_raw ?cs)) 0 \<and>
        softlines_needed row = - COALESCE (SUM_agg (map softlines_raw ?cs)) 0 \<and>
        (?cs = [] \<longrightarrow>
           sleeves_needed row = 0 \<and> caps_needed row = 0 \<and> canvases_needed row = 0 \<and>
           totes_needed row = 0 \<and> hardlines_needed row = 0 \<and> softlines_needed row = 0)"
    if "row \<in> set (run_supply_needs today dcc sss rs)" "run_of row = r" for row
    unfolding rows[OF that] vals by (simp add: COALESCE_def)
  with ex show ?thesis
    by blast
qed

theorem run_without_par_levels_witness:
  "\<exists>row\<in>set (run_supply_needs ex_today ex_counts ex_supplies ex_runs).
      run_of row = ex_run ''r2'' ''Cheviot'' ''9012'' 1728003600 \<and> sleeves_needed row = - 3"
proof -
  let ?r = "ex_run ''r2'' ''Cheviot'' ''9012'' 1728003600"
  have h1: "?r \<in> set ex_runs"
    by (simp add: ex_runs_def)
  have h2: "created_today ex_today ?r"
    by (simp add: created_today_def DATE_def ex_run_def ex_today_def)
  have h3: "\<forall>ss\<in>set ex_supplies. \<not> is_true (sql_eq (r_department_number ?r) (ss_department_number ss))"
    by (simp add: ex_supplies_def par_row_of_def tri_county_def ex_run_def is_true_sql_eq)
  have s: "- COALESCE (SUM_agg (map sleeves (todays_counts_for ex_today ex_counts (r_department_number ?r)))) 0 = - 3"
    by code_simp
  from run_without_par_levels[OF h1 h2 h3, of ex_counts] show ?thesis
    unfolding s by blast
qed

text \<open>
  C4, as stated. The view would have exactly one row per run created on the current
  date, whatever the par levels are. With two rows of \<open>store_supplies\<close> for department
  9011 the two runs created today have three rows: the run of that department has two.
\<close>

theorem one_row_per_run_counterexample:
  "length (filter (created_today ex_today) ex_runs) = 2 \<and>
   length (run_supply_needs ex_today ex_counts ex_supplies_twice ex_runs) = 3 \<and>
   map run_id (run_supply_needs ex_today ex_counts ex_supplies_twice ex_runs) =
     [Some ''r1'', Some ''r1'', Some ''r2'']"
  by code_simp

text \<open>
  C4, amended. The runs behind the rows of the view are exactly the runs created on the
  current date, so a run created on another day (or with no creation time) has no row,
  whatever the counts and par levels are. A run created on the current date has one row
  for each row of \<open>store_supplies\<close> with its department number, and one row when there is
  none.
\<close>

theorem rows_per_run:
  "run_of ` set (run_supply_needs today dcc sss rs) = {r \<in> set rs. created_today today r} \<and>
   count (mset (map run_of (run_supply_needs today dcc sss rs))) r =
     (if created_today today r
      then count (mset rs) r *
           max 1 (length (filter (\<lambda>ss. is_true (sql_eq (r_department_number r) (ss_department_number ss))) sss))
      else 0)"
  using run_of_needs_set count_run_of_needs by blast

theorem rows_per_run_witness:
  "\<not> created_today ex_today (ex_run ''r3'' ''Tri-County'' ''9011'' 1727999999) \<and>
   ex_run ''r3'' ''Tri-County'' ''9011'' 1727999999 \<notin> run_of ` set (run_supply_needs ex_today ex_counts ex_supplies ex_runs) \<and>
   count (mset (map run_of (run_supply_needs ex_today ex_counts ex_supplies ex_runs)))
     (ex_run ''r1'' ''Tri-County'' ''9011'' 1728000600) = 1 \<and>
   count (mset (map run_of (run_supply_needs ex_today ex_counts ex_supplies_twice ex_runs)))
     (ex_run ''r1'' ''Tri-County'' ''9011'' 1728000600) = 2"
proof -
  let ?r1 = "ex_run ''r1'' ''Tri-County'' ''9011'' 1728000600"
  let ?r3 = "ex_run ''r3'' ''Tri-County'' ''9011'' 1727999999"
  have n: "\<not> created_today ex_today ?r3"
    by (simp add: created_today_def DATE_def ex_run_def ex_today_def)
  have t: "created_today ex_today ?r1"
    by (simp add: created_today_def DATE_def ex_run_def ex_today_def)
  have c: "count (mset ex_runs) ?r1 = 1"
    by (simp add: ex_runs_def ex_run_def)
  have m1: "length (filter (\<lambda>ss. is_true (sql_eq (r_department_number ?r1) (ss_department_number ss))) ex_supplies) = 1"
    by (simp add: ex_supplies_def par_row_of_def tri_county_def ex_run_def is_true_sql_eq)
  have m2: "length (filter (\<lambda>ss. is_true (sql_eq (r_department_number ?r1) (ss_department_number ss))) ex_supplies_twice) = 2"
    by (simp add: ex_supplies_twice_def par_row_of_def tri_county_def ex_run_def is_true_sql_eq)
  from rows_per_run[of ex_today ex_counts ex_supplies ex_runs ?r1] t c m1
  have one: "count (mset (map run_of (run_supply_needs ex_today ex_counts ex_supplies ex_runs))) ?r1 = 1"
    by simp
  from rows_per_run[of ex_today ex_counts ex_supplies_twice ex_runs ?r1] t c m2
  have two: "count (mset (map run_of (run_supply_needs ex_today ex_counts ex_supplies_twice ex_runs))) ?r1 = 2"
    by simp
  from rows_per_run[of ex_today ex_counts ex_supplies ex_runs ?r3] n
  have "?r3 \<notin> run_of ` set (run_supply_needs ex_today ex_counts ex_supplies ex_runs)"
    by simp
  with n one two show ?thesis
    by simp
qed

text \<open>
  C7. The rows of the view, as a bag, are determined by the current date and the contents
  of the three tables: two reads that find the same date and the same rows in each
  table, in whatever order the rows are stored or scanned, return the same rows. A read
  returns the database as it found it, so a second read finds what the first one found.
\<close>

theorem view_is_determined_by_table_contents:
  assumes "CURRENT_DATE db' = CURRENT_DATE db"
    and "mset (daily_container_counts db') = mset (daily_container_counts db)"
    and "mset (store_supplies db') = mset (store_supplies db)"
    and "mset (active_delivery_runs db') = mset (active_delivery_runs db)"
  shows "mset (fst (select_run_supply_needs db')) = mset (fst (select_run_supply_needs db)) \<and>
         snd (select_run_supply_needs db) = db"
  using run_supply_needs_mset[OF assms(2,3,4)] assms(1)
  by (simp add: select_run_supply_needs_def)

theorem view_is_determined_by_table_contents_witness:
  "mset (fst (select_run_supply_needs
      \<lparr> CURRENT_DATE = ex_today, daily_container_counts = rev ex_counts,
        store_supplies = rev ex_supplies, active_delivery_runs = rev ex_runs \<rparr>)) =
   mset (fst (select_run_supply_needs ex_db)) \<and>
   fst (select_run_supply_needs (snd (select_run_supply_needs ex_db))) = fst (select_run_supply_needs ex_db) \<and>
   map run_id (fst (select_run_supply_needs
      \<lparr> CURRENT_DATE = ex_today, daily_container_counts = rev ex_counts,
        store_supplies = rev ex_supplies, active_delivery_runs = rev ex_runs \<rparr>)) = [Some ''r2'', Some ''r1''] \<and>
   map run_id (fst (select_run_supply_needs ex_db)) = [Some ''r1'', Some ''r2'']"
proof -
  let ?db' = "\<lparr> CURRENT_DATE = ex_today, daily_container_counts = rev ex_counts,
        store_supplies = rev ex_supplies, active_delivery_runs = rev ex_runs \<rparr>"
  have h: "CURRENT_DATE ?db' = CURRENT_DATE ex_db"
    "mset (daily_container_counts ?db') = mset (daily_container_counts ex_db)"
    "mset (store_supplies ?db') = mset (store_supplies ex_db)"
    "mset (active_delivery_runs ?db') = mset (active_delivery_runs ex_db)"
    by (simp_all add: ex_db_def)
  have v: "map run_id (fst (select_run_supply_needs ?db')) = [Some ''r2'', Some ''r1'']"
    "map run_id (fst (select_run_supply_needs ex_db)) = [Some ''r1'', Some ''r2'']"
    by code_simp+
  from view_is_determined_by_table_contents[OF h] v show ?thesis
    by simp
qed

text \<open>
  C9. Tri-County is department 9011 with a par level of 40 sleeves in the seed data. When
  \<open>store_supplies\<close> carries that par level for the department and today's count facts of
  the department sum to 15 sleeves, every row of the view for a run of department 9011
  has \<open>sleeves_needed = 25\<close>.
\<close>

theorem tri_county_sleeves:
  assumes "row \<in> set (run_supply_needs today dcc sss rs)"
    and "department_number row = Some (stores_department_number tri_county)"
    and "\<exists>ss\<in>set sss. ss_department_number ss = Some (stores_department_number tri_county)"
    and "\<forall>ss\<in>set sss. ss_department_number ss = Some (stores_department_number tri_county)
           \<longrightarrow> sleeves ss = sleeves tri_county"
    and "SUM_agg (map sleeves (todays_counts_for today dcc (Some (stores_department_number tri_county)))) = Some 15"
  shows "sleeves_needed row = 25"
proof -
  let ?d = "Some (stores_department_number tri_county)"
  from assms(1) obtain r p where p: "p \<in> set (par_levels sss (r_department_number r))"
    and row: "row = expected_row r p (todays_counts_for today dcc (r_department_number r))"
    unfolding in_run_supply_needs by blast
  from row assms(2) have d: "r_department_number r = ?d"
    by (simp add: expected_row_def)
  from assms(3) obtain s0 where "s0 \<in> set sss" "?d = ss_department_number s0"
    by (metis (no_types))
  then have "filter (\<lambda>ss. ?d \<noteq> None \<and> ?d = ss_department_number ss) sss \<noteq> []"
    unfolding filter_empty_conv by blast
  with p d have "p \<in> Some ` set (filter (\<lambda>ss. ?d \<noteq> None \<and> ?d = ss_department_number ss) sss)"
    by (simp add: set_par_levels)
  then obtain ss where "p = Some ss" "ss \<in> set sss" "ss_department_number ss = ?d"
    by auto
  with assms(4) have "Option.bind p sleeves = Some 40"
    by (simp add: tri_county_def)
  then show ?thesis
    using assms(5) by (simp add: row d expected_row_def deficit_def COALESCE_def)
qed

theorem tri_county_sleeves_witness:
  "length (todays_counts_for ex_today ex_counts (Some ''9011'')) = 2 \<and>
   (\<exists>row\<in>set (run_supply_needs ex_today ex_counts ex_supplies ex_runs).
      store_name row = Some ''Tri-County'' \<and> sleeves_needed row = 25)"
proof -
  let ?row = "hd (run_supply_needs ex_today ex_counts ex_supplies ex_runs)"
  have h1: "?row \<in> set (run_supply_needs ex_today ex_counts ex_supplies ex_runs)"
    by (simp add: ex_view)
  have h2: "department_number ?row = Some (stores_department_number tri_county)"
    by code_simp
  have h3: "\<exists>ss\<in>set ex_supplies. ss_department_number ss = Some (stores_department_number tri_county)"
    by (simp add: ex_supplies_def par_row_of_def)
  have h4: "\<forall>ss\<in>set ex_supplies. ss_department_number ss = Some (stores_department_number tri_county)
           \<longrightarrow> sleeves ss = sleeves tri_county"
    by (simp add: ex_supplies_def par_row_of_def)
  have h5: "SUM_agg (map sleeves (todays_counts_for ex_today ex_counts (Some (stores_department_number tri_county)))) = Some 15"
    by code_simp
  have n: "store_name ?row = Some ''Tri-County''"
    by code_simp
  have l: "length (todays_counts_for ex_today ex_counts (Some ''9011'')) = 2"
    by code_simp
  from tri_county_sleeves[OF h1 h2 h3 h4 h5] h1 n l show ?thesis
    by blast
qed

section \<open>Run registration\<close>

lemma split_hd: "\<exists>ws. split sep s = takeWhile (\<lambda>c. c \<noteq> sep) s # ws"
  by (induction s) (auto split: list.splits)

lemma add_run_params_first_space:
  "add_run_params store timeSlot =
     \<lparr> p_run_type = Some (takeWhile (\<lambda>c. c \<noteq> CHR '' '') timeSlot),
       p_store_id = s_id store,
       p_store_name = s_store_name store,
       p_department_number = s_department_number store,
       p_truck_type = ''box_truck'' \<rparr>"
proof -
  obtain ws where "split CHR '' '' timeSlot = takeWhile (\<lambda>c. c \<noteq> CHR '' '') timeSlot # ws"
    using split_hd by blast
  then show ?thesis
    by (simp add: add_run_params_def)
qed

lemma addRun_sends_params:
  "\<exists>reqs. fst (addRun srv srv' store timeSlot s) = Rpc_add_delivery_run (add_run_params store timeSlot) # reqs"
  by (simp add: addRun_def Let_def split: response.splits option.splits prod.splits)

lemma first_token_of_labels:
  assumes "timeSlot \<in> fst ` set (Object_entries g)"
  shows "takeWhile (\<lambda>c. c \<noteq> CHR '' '') timeSlot = first_token timeSlot"
  using assms by (auto simp: Object_entries_def first_token_def is_whitespace_def)

text \<open>
  C5. For every store and every time-slot label, that is, every key of the grouped runs
  under which the dashboard offers to add a run, \<open>addRun\<close> first sends the call of
  \<open>add_delivery_run\<close> with the first whitespace-delimited token of the label as run type,
  the truck type \<open>box_truck\<close>, and the store's id, name and department number.
\<close>

theorem run_type_is_first_token_of_label:
  assumes "timeSlot \<in> fst ` set (Object_entries (groupRunsByTime rs))"
  shows "\<exists>reqs. fst (addRun srv srv' store timeSlot s) =
           Rpc_add_delivery_run
             \<lparr> p_run_type = Some (first_token timeSlot),
               p_store_id = s_id store,
               p_store_name = s_store_name store,
               p_department_number = s_department_number store,
               p_truck_type = ''box_truck'' \<rparr> # reqs"
  using addRun_sends_params[of srv srv' store timeSlot s]
  unfolding add_run_params_first_space first_token_of_labels[OF assms] .

theorem run_type_is_first_token_of_label_witness:
  "map fst (Object_entries (groupRunsByTime ex_fetched)) = [''Morning Runs'', ''Afternoon Runs'', ''ADC Runs''] \<and>
   first_token ''Morning Runs'' = ''Morning'' \<and>
   (\<exists>reqs. fst (addRun ex_server ex_server cheviot ''Morning Runs'' initial) =
      Rpc_add_delivery_run
        \<lparr> p_run_type = Some ''Morning'', p_store_id = ''7c1d'', p_store_name = ''Cheviot'',
          p_department_number = ''9012'', p_truck_type = ''box_truck'' \<rparr> # reqs)"
proof -
  have k: "map fst (Object_entries (groupRunsByTime ex_fetched)) = [''Morning Runs'', ''Afternoon Runs'', ''ADC Runs'']"
    by (simp add: Object_entries_def)
  then have h: "''Morning Runs'' \<in> fst ` set (Object_entries (groupRunsByTime ex_fetched))"
    by (simp add: Object_entries_def)
  have f: "first_token ''Morning Runs'' = ''Morning''"
    by (simp add: first_token_def is_whitespace_def)
  from run_type_is_first_token_of_label[OF h, of ex_server ex_server cheviot initial] k f
  show ?thesis
    by (simp add: cheviot_def)
qed

section \<open>The two reads\<close>

lemma mset_order_by [simp]: "mset (order_by key asc rows) = mset rows"
proof -
  have "mset (filter (\<lambda>r. key r \<noteq> None) rows) + mset (filter (\<lambda>r. key r = None) rows) = mset rows"
    by (induction rows) simp_all
  then show ?thesis
    by (auto simp: order_by_def Let_def add.commute)
qed

lemma order_by_present:
  assumes "\<forall>r\<in>set rows. key r \<noteq> None"
  shows "order_by key asc rows =
           (if asc then sort_key (\<lambda>r. the (key r)) rows else rev (sort_key (\<lambda>r. the (key r)) rows))"
proof -
  have "filter (\<lambda>r. key r \<noteq> None) rows = rows" "filter (\<lambda>r. key r = None) rows = []"
    using assms by (simp_all add: filter_id_conv filter_empty_conv)
  then show ?thesis
    by (simp add: order_by_def)
qed

lemma sorted_order_by_desc:
  assumes "\<forall>r\<in>set rows. key r \<noteq> None"
  shows "sorted_wrt (\<lambda>a b. the (key b) \<le> the (key a)) (order_by key False rows)"
proof -
  have "sorted (map (\<lambda>r. the (key r)) (sort_key (\<lambda>r. the (key r)) rows))"
    by simp
  then have "sorted_wrt (\<lambda>a b. the (key a) \<le> the (key b)) (sort_key (\<lambda>r. the (key r)) rows)"
    by (simp add: sorted_map)
  then show ?thesis
    by (simp add: order_by_present[OF assms] sorted_wrt_rev)
qed



text \<open>
  The read of the runs orders by \<open>created_at\<close>, descending: against a backend that
  answers it as described above, the runs the dashboard loads are all rows of the view,
  each with a creation time, newest first.
\<close>

lemma run_read_is_newest_first:
  assumes "select_needs srv = postgrest_run_supply_needs db"
  shows "mset (runs (snd (fetchRuns srv s))) = mset (fst (select_run_supply_needs db)) \<and>
         (\<forall>row\<in>set (runs (snd (fetchRuns srv s))). created_at row \<noteq> None) \<and>
         sorted_wrt (\<lambda>a b. the (created_at b) \<le> the (created_at a)) (runs (snd (fetchRuns srv s)))"
proof -
  let ?rows = "fst (select_run_supply_needs db)"
  have rs: "runs (snd (fetchRuns srv s)) = order_by created_at False ?rows"
    by (simp add: fetchRuns_def assms postgrest_run_supply_needs_def
        text_columns_def integer_columns_def timestamp_columns_def)
  have present: "\<forall>row\<in>set ?rows. created_at row \<noteq> None"
    by (auto simp: select_run_supply_needs_def dest: view_rows_have_created_at)
  have "set (order_by created_at False ?rows) = set ?rows"
    by (metis mset_order_by set_mset_mset)
  with present have present': "\<forall>row\<in>set (order_by created_at False ?rows). created_at row \<noteq> None"
    by simp
  show ?thesis
    unfolding rs using present' sorted_order_by_desc[OF present] by simp
qed

text \<open>
  C8. When the read of the stores fails (an error in the answer, or a rejected call), the
  function has sent that one request and no other, the error message is the fixed text
  for that read, and the stores and the runs are the ones loaded before; the same holds
  for the read of the runs.
\<close>

theorem read_failure_keeps_loaded_data:
  "(failed (select_stores srv \<lparr> columns = ''*'', order_column = ''store_name'', ascending = True \<rparr>) \<longrightarrow>
      fst (fetchStores srv s) =
        [From_stores \<lparr> columns = ''*'', order_column = ''store_name'', ascending = True \<rparr>] \<and>
      error (snd (fetchStores srv s)) = Some ''Failed to fetch stores'' \<and>
      stores (snd (fetchStores srv s)) = stores s \<and>
      runs (snd (fetchStores srv s)) = runs s) \<and>
   (failed (select_needs srv \<lparr> columns = ''*'', order_column = ''created_at'', ascending = False \<rparr>) \<longrightarrow>
      fst (fetchRuns srv s) =
        [From_run_supply_needs \<lparr> columns = ''*'', order_column = ''created_at'', ascending = False \<rparr>] \<and>
      error (snd (fetchRuns srv s)) = Some ''Failed to fetch delivery runs'' \<and>
      runs (snd (fetchRuns srv s)) = runs s \<and>
      stores (snd (fetchRuns srv s)) = stores s)"
  by (simp add: fetchStores_def fetchRuns_def failed_def Let_def split: response.splits option.splits)

theorem read_failure_keeps_loaded_data_witness:
  "failed (select_stores failing_server \<lparr> columns = ''*'', order_column = ''store_name'', ascending = True \<rparr>) \<and>
   failed (select_needs failing_server \<lparr> columns = ''*'', order_column = ''created_at'', ascending = False \<rparr>) \<and>
   stores (snd (fetchStores failing_server (snd (fetchRuns ex_server (snd (fetchStores ex_server initial)))))) =
     stores (snd (fetchStores ex_server initial)) \<and>
   runs (snd (fetchStores failing_server (snd (fetchRuns ex_server (snd (fetchStores ex_server initial)))))) =
     runs (snd (fetchRuns ex_server initial)) \<and>
   error (snd (fetchStores failing_server (snd (fetchRuns ex_server (snd (fetchStores ex_server initial)))))) =
     Some ''Failed to fetch stores'' \<and>
   length (fst (fetchRuns failing_server (snd (fetchRuns ex_server initial)))) = 1"
proof -
  let ?s = "snd (fetchRuns ex_server (snd (fetchStores ex_server initial)))"
  have h1: "failed (select_stores failing_server \<lparr> columns = ''*'', order_column = ''store_name'', ascending = True \<rparr>)"
    by (simp add: failing_server_def failed_def)
  have h2: "failed (select_needs failing_server \<lparr> columns = ''*'', order_column = ''created_at'', ascending = False \<rparr>)"
    by (simp add: failing_server_def failed_def)
  have s1: "stores ?s = stores (snd (fetchStores ex_server initial))"
    by (simp add: fetchRuns_def Let_def split: response.splits option.splits)
  have s2: "runs ?s = runs (snd (fetchRuns ex_server initial))"
    by (simp add: fetchRuns_def fetchStores_def Let_def split: response.splits option.splits)
  from read_failure_keeps_loaded_data[of failing_server ?s] h1 h2
  have "stores (snd (fetchStores failing_server ?s)) = stores ?s"
    "runs (snd (fetchStores failing_server ?s)) = runs ?s"
    "error (snd (fetchStores failing_server ?s)) = Some ''Failed to fetch stores''"
    by simp_all
  moreover from read_failure_keeps_loaded_data[of failing_server "snd (fetchRuns ex_server initial)"] h2
  have "length (fst (fetchRuns failing_server (snd (fetchRuns ex_server initial)))) = 1"
    by simp
  ultimately show ?thesis
    using h1 h2 s1 s2 by simp
qed

section \<open>The time-slot groups\<close>

text \<open>
  C10. The three groups are the runs whose run type is exactly \<open>Morning\<close>, \<open>Afternoon\<close>
  and \<open>ADC\<close>: a run with one of these tags is in its group, as often as it was fetched,
  and in no other group, and a run with any other run type, or none, is in no group.
\<close>

theorem groups_partition_by_exact_tag:
  "(\<forall>run\<in>set rs.
      (run_type run = Some ''Morning'' \<longrightarrow>
         count (mset (Morning_Runs (groupRunsByTime rs))) run = count (mset rs) run \<and>
         run \<notin> set (Afternoon_Runs (groupRunsByTime rs)) \<and> run \<notin> set (ADC_Runs (groupRunsByTime rs))) \<and>
      (run_type run = Some ''Afternoon'' \<longrightarrow>
         count (mset (Afternoon_Runs (groupRunsByTime rs))) run = count (mset rs) run \<and>
         run \<notin> set (Morning_Runs (groupRunsByTime rs)) \<and> run \<notin> set (ADC_Runs (groupRunsByTime rs))) \<and>
      (run_type run = Some ''ADC'' \<longrightarrow>
         count (mset (ADC_Runs (groupRunsByTime rs))) run = count (mset rs) run \<and>
         run \<notin> set (Morning_Runs (groupRunsByTime rs)) \<and> run \<notin> set (Afternoon_Runs (groupRunsByTime rs))) \<and>
      (run_type run \<notin> {Some ''Morning'', Some ''Afternoon'', Some ''ADC''} \<longrightarrow>
         run \<notin> set (Morning_Runs (groupRunsByTime rs)) \<and> run \<notin> set (Afternoon_Runs (groupRunsByTime rs)) \<and>
         run \<notin> set (ADC_Runs (groupRunsByTime rs)))) \<and>
   set (Morning_Runs (groupRunsByTime rs)) \<union> set (Afternoon_Runs (groupRunsByTime rs)) \<union>
     set (ADC_Runs (groupRunsByTime rs)) \<subseteq> set rs"
  by (auto simp: groupRunsByTime_def)

theorem groups_partition_by_exact_tag_witness:
  "Morning_Runs (groupRunsByTime ex_fetched) = [tagged ''r1'' (Some ''Morning''), tagged ''r1'' (Some ''Morning'')] \<and>
   Afternoon_Runs (groupRunsByTime ex_fetched) = [] \<and>
   ADC_Runs (groupRunsByTime ex_fetched) = [tagged ''r3'' (Some ''ADC'')] \<and>
   tagged ''r2'' (Some ''morning'') \<in> set ex_fetched \<and>
   tagged ''r2'' (Some ''morning'') \<notin> set (Morning_Runs (groupRunsByTime ex_fetched)) \<and>
   tagged ''r2'' (Some ''morning'') \<notin> set (Afternoon_Runs (groupRunsByTime ex_fetched)) \<and>
   tagged ''r2'' (Some ''morning'') \<notin> set (ADC_Runs (groupRunsByTime ex_fetched))"
proof -
  have m: "tagged ''r2'' (Some ''morning'') \<in> set ex_fetched"
    by (simp add: ex_fetched_def)
  have t: "run_type (tagged ''r2'' (Some ''morning'')) \<notin> {Some ''Morning'', Some ''Afternoon'', Some ''ADC''}"
    by (simp add: tagged_def)
  have g: "Morning_Runs (groupRunsByTime ex_fetched) = [tagged ''r1'' (Some ''Morning''), tagged ''r1'' (Some ''Morning'')]"
    "Afternoon_Runs (groupRunsByTime ex_fetched) = []"
    "ADC_Runs (groupRunsByTime ex_fetched) = [tagged ''r3'' (Some ''ADC'')]"
    by (simp_all add: groupRunsByTime_def ex_fetched_def tagged_def)
  from groups_partition_by_exact_tag[of ex_fetched] m t
  have "tagged ''r2'' (Some ''morning'') \<notin> set (Morning_Runs (groupRunsByTime ex_fetched)) \<and>
        tagged ''r2'' (Some ''morning'') \<notin> set (Afternoon_Runs (groupRunsByTime ex_fetched)) \<and>
        tagged ''r2'' (Some ''morning'') \<notin> set (ADC_Runs (groupRunsByTime ex_fetched))"
    by blast
  with m g show ?thesis
    by simp
qed

end
